theory Spec2Isabelle
  imports Complex_Main
begin

section \<open>Matrix factorization recommender (cornac/models/mf/recom_mf.pyx)\<close>

text \<open>
  The class \<open>MF\<close> of \<^verbatim>\<open>recom_mf.pyx\<close> with its methods \<open>__init__\<close>, \<open>fit\<close>, \<open>score\<close> and
  \<open>rank\<close>.

  Conventions of the embedding.
  \<^item> Python \<open>int\<close> parameters (\<open>k\<close>, \<open>max_iter\<close>) are \<open>int\<close>; \<open>range(n)\<close> runs \<open>nat n\<close> times,
    which is zero times for \<open>n \<le> 0\<close>.
  \<^item> User and item indices are \<open>nat\<close> (\<^verbatim>\<open>cdef int u, i\<close> read from the row and column
    arrays of a sparse matrix).
  \<^item> \<open>double\<close> values are idealised as \<open>real\<close>: there is no rounding, no overflow and no
    NaN. Every formula below is written in the association order of the source.
  \<^item> A numpy vector is a \<open>real list\<close>, a numpy matrix a list of rows.
  \<^item> An exception is a value \<open>Inl e\<close> of \<open>error + 'a\<close>.
  \<^item> An attribute that exists only after \<open>fit\<close> is an \<open>option\<close>; reading it while it is
    \<open>None\<close> is an \<open>AttributeError\<close>.
  \<^item> \<open>print\<close> calls (verbose mode) change no state and are left out.
\<close>

subsection \<open>Errors\<close>

datatype error =
    ValueError string
  | ScoreException nat nat
  | IndexError
  | AttributeError

definition bind :: "error + 'a \<Rightarrow> ('a \<Rightarrow> error + 'b) \<Rightarrow> error + 'b" where
  "bind m f = (case m of Inl e \<Rightarrow> Inl e | Inr x \<Rightarrow> f x)"

definition not_fitted :: error where
  "not_fitted = ValueError ''You need to fit the model first!''"

subsection \<open>The training set (external collaborator)\<close>

text \<open>
  The class \<open>TrainSet\<close> is not part of this file of the repository; the model code reads
  the attributes and calls the predicates below. \<open>triples\<close> is what
  \<^verbatim>\<open>sp.find(train_set.matrix)\<close> returns, zipped: the \<open>(row, column, value)\<close> entries of the
  sparse rating matrix. The predicates \<open>is_unk_user\<close> and \<open>is_unk_item\<close> are parameters.
\<close>

record TrainSet =
  num_users :: nat
  num_items :: nat
  global_mean :: real
  min_rating :: real
  triples :: "(nat \<times> nat \<times> real) list"
  is_unk_user :: "nat \<Rightarrow> bool"
  is_unk_item :: "nat \<Rightarrow> bool"

text \<open>Every entry of a sparse \<open>num_users \<times> num_items\<close> matrix lies inside its shape.\<close>

definition in_shape :: "TrainSet \<Rightarrow> bool" where
  "in_shape ts = list_all (\<lambda>(u, i, r). u < num_users ts \<and> i < num_items ts) (triples ts)"

subsection \<open>The model object\<close>

record MF =
  k :: int
  max_iter :: int
  learning_rate :: real
  lambda_reg :: real
  use_bias :: bool
  early_stop :: bool
  verbose :: bool
  fitted :: bool
  train_set :: "TrainSet option"
  self_u_factors :: "real list list option"
  self_i_factors :: "real list list option"
  self_u_biases :: "real list option"
  self_i_biases :: "real list option"

text \<open>
  \<open>MF.__init__\<close>: stores its arguments and sets \<open>fitted = False\<close>. The body has no
  \<open>raise\<close> and no check of any argument, so the only result is \<open>Inr\<close>.
\<close>

definition MF_init :: "int \<Rightarrow> int \<Rightarrow> real \<Rightarrow> real \<Rightarrow> bool \<Rightarrow> bool \<Rightarrow> bool \<Rightarrow> error + MF" where
  "MF_init k0 max_iter0 learning_rate0 lambda_reg0 use_bias0 early_stop0 verbose0 =
     Inr \<lparr> k = k0, max_iter = max_iter0, learning_rate = learning_rate0,
           lambda_reg = lambda_reg0, use_bias = use_bias0, early_stop = early_stop0,
           verbose = verbose0, fitted = False, train_set = None,
           self_u_factors = None, self_i_factors = None,
           self_u_biases = None, self_i_biases = None \<rparr>"

subsection \<open>fit\<close>

text \<open>
  The local variables of \<open>fit\<close> that the loops read and write. \<open>iter\<close> is the loop
  variable of the epoch loop: the number of the epoch that ran last, \<open>0\<close> before the
  first one. \<open>u_biases\<close> and \<open>i_biases\<close> are allocated only when \<open>use_bias\<close> is set; the
  empty list stands for the unallocated buffers, which are never read in that case.
\<close>

record fit_state =
  u_factors :: "real list list"
  i_factors :: "real list list"
  u_biases :: "real list"
  i_biases :: "real list"
  loss :: real
  iter :: nat

text \<open>\<^verbatim>\<open>m[r, c] += d\<close> on a matrix.\<close>

definition mat_add :: "real list list \<Rightarrow> nat \<Rightarrow> nat \<Rightarrow> real \<Rightarrow> real list list" where
  "mat_add m r c d = m[r := (m ! r)[c := m ! r ! c + d]]"

text \<open>
  \<^verbatim>\<open>np.random.normal(size=[rows, cols], loc=0., scale=0.01)\<close>: the drawn values are a
  parameter \<open>rnd\<close> (entry by entry), the shape is the one the code asks for. numpy
  raises \<open>ValueError\<close> for a negative dimension; \<open>fit\<close> checks that before calling this.
\<close>

definition normal :: "(nat \<Rightarrow> nat \<Rightarrow> real) \<Rightarrow> nat \<Rightarrow> nat \<Rightarrow> real list list" where
  "normal rnd rows cols = map (\<lambda>r. map (\<lambda>c. rnd r c) [0..<cols]) [0..<rows]"

definition zeros :: "nat \<Rightarrow> real list" where
  "zeros n = replicate n 0"

definition fit_init :: "MF \<Rightarrow> TrainSet \<Rightarrow> (nat \<Rightarrow> nat \<Rightarrow> real) \<Rightarrow> (nat \<Rightarrow> nat \<Rightarrow> real) \<Rightarrow> fit_state" where
  "fit_init self ts rnd_u rnd_i =
     \<lparr> u_factors = normal rnd_u (num_users ts) (nat (k self)),
       i_factors = normal rnd_i (num_items ts) (nat (k self)),
       u_biases = (if use_bias self then zeros (num_users ts) else []),
       i_biases = (if use_bias self then zeros (num_items ts) else []),
       loss = 0,
       iter = 0 \<rparr>"

text \<open>Lines 102 to 106: the predicted rating of one interaction.\<close>

definition predict :: "MF \<Rightarrow> TrainSet \<Rightarrow> fit_state \<Rightarrow> nat \<Rightarrow> nat \<Rightarrow> real" where
  "predict self ts s u i =
     (let r_pred = foldl (\<lambda>acc factor. acc + u_factors s ! u ! factor * i_factors s ! i ! factor)
                     0 [0..<nat (k self)]
      in if use_bias self
         then r_pred + (global_mean ts + u_biases s ! u + i_biases s ! i)
         else r_pred)"

text \<open>Lines 112 to 115: the body of the update loop for one latent dimension.\<close>

definition update_factor :: "real \<Rightarrow> real \<Rightarrow> real \<Rightarrow> nat \<Rightarrow> nat \<Rightarrow> fit_state \<Rightarrow> nat \<Rightarrow> fit_state" where
  "update_factor lr reg error u i s factor =
     (let u_f = u_factors s ! u ! factor;
          i_f = i_factors s ! i ! factor;
          s1 = s\<lparr>u_factors := mat_add (u_factors s) u factor (lr * (error * i_f - reg * u_f))\<rparr>
      in s1\<lparr>i_factors := mat_add (i_factors s1) i factor (lr * (error * u_f - reg * i_f))\<rparr>)"

text \<open>Lines 102 to 115: the body of the loop over the interactions.\<close>

definition sgd_step :: "MF \<Rightarrow> TrainSet \<Rightarrow> fit_state \<Rightarrow> nat \<times> nat \<times> real \<Rightarrow> fit_state" where
  "sgd_step self ts s t =
     (case t of (u, i, r) \<Rightarrow>
        let r_pred = predict self ts s u i;
            error = r - r_pred;
            s1 = s\<lparr>loss := loss s + error * error\<rparr>
        in foldl (update_factor (learning_rate self) (lambda_reg self) error u i) s1
             [0..<nat (k self)])"

text \<open>
  Lines 98 to 117: one epoch up to the halving of the loss (the assignment
  \<open>last_loss = loss\<close> is in \<open>fit_loop\<close>).
\<close>

definition epoch :: "MF \<Rightarrow> TrainSet \<Rightarrow> fit_state \<Rightarrow> fit_state" where
  "epoch self ts s =
     (let s1 = s\<lparr>loss := 0, iter := iter s + 1\<rparr>;
          s2 = foldl (sgd_step self ts) s1 (triples ts)
      in s2\<lparr>loss := (1 / 2) * loss s2\<rparr>)"

text \<open>
  Lines 97 to 123: \<^verbatim>\<open>for iter in range(1, self.max_iter + 1)\<close> with its \<open>break\<close>. The first
  argument is the number of values that remain in the range.
\<close>

fun fit_loop :: "MF \<Rightarrow> TrainSet \<Rightarrow> nat \<Rightarrow> fit_state \<Rightarrow> fit_state" where
  "fit_loop self ts 0 s = s"
| "fit_loop self ts (Suc n) s =
     (let last_loss = loss s;
          s' = epoch self ts s;
          delta_loss = \<bar>loss s' - last_loss\<bar>
      in if early_stop self \<and> delta_loss < 1 / 100000 then s'
         else fit_loop self ts n s')"

text \<open>
  \<open>MF.fit\<close>. \<open>Recommender.fit\<close> (not in this file) stores the training set in
  \<open>self.train_set\<close>. Without \<open>use_bias\<close> the bias attributes are left as they were.
\<close>

definition fit :: "MF \<Rightarrow> TrainSet \<Rightarrow> (nat \<Rightarrow> nat \<Rightarrow> real) \<Rightarrow> (nat \<Rightarrow> nat \<Rightarrow> real) \<Rightarrow> error + MF" where
  "fit self ts rnd_u rnd_i =
     (if k self < 0 then Inl (ValueError ''negative dimensions are not allowed'')
      else
        let s = fit_loop self ts (nat (max_iter self)) (fit_init self ts rnd_u rnd_i)
        in Inr (self\<lparr> fitted := True,
                      train_set := Some ts,
                      self_u_factors := Some (u_factors s),
                      self_i_factors := Some (i_factors s),
                      self_u_biases := (if use_bias self then Some (u_biases s) else self_u_biases self),
                      self_i_biases := (if use_bias self then Some (i_biases s) else self_i_biases self) \<rparr>))"

subsection \<open>score\<close>

text \<open>Reading an attribute, and indexing a numpy array with a non-negative index.\<close>

definition attr :: "'a option \<Rightarrow> error + 'a" where
  "attr a = (case a of None \<Rightarrow> Inl AttributeError | Some x \<Rightarrow> Inr x)"

definition getitem :: "'a list \<Rightarrow> nat \<Rightarrow> error + 'a" where
  "getitem xs n = (if n < length xs then Inr (xs ! n) else Inl IndexError)"

text \<open>\<open>np.dot\<close> of two vectors, and of a matrix with a vector.\<close>

definition dot :: "real list \<Rightarrow> real list \<Rightarrow> real" where
  "dot xs ys = (\<Sum>(x, y) \<leftarrow> zip xs ys. x * y)"

definition np_dot :: "real list \<Rightarrow> real list \<Rightarrow> error + real" where
  "np_dot xs ys =
     (if length xs = length ys then Inr (dot xs ys)
      else Inl (ValueError ''shapes not aligned''))"

definition np_dot_mv :: "real list list \<Rightarrow> real list \<Rightarrow> error + real list" where
  "np_dot_mv m v =
     (if list_all (\<lambda>row. length row = length v) m then Inr (map (\<lambda>row. dot row v) m)
      else Inl (ValueError ''shapes not aligned''))"

definition factor_dot :: "MF \<Rightarrow> nat \<Rightarrow> nat \<Rightarrow> error + real" where
  "factor_dot self user_id item_id =
     bind (attr (self_u_factors self)) (\<lambda>uf.
     bind (getitem uf user_id) (\<lambda>p.
     bind (attr (self_i_factors self)) (\<lambda>itf.
     bind (getitem itf item_id) (\<lambda>q.
     np_dot p q))))"

definition score :: "MF \<Rightarrow> nat \<Rightarrow> nat \<Rightarrow> error + real" where
  "score self user_id item_id =
     (if \<not> fitted self then Inl not_fitted
      else
        bind (attr (train_set self)) (\<lambda>ts.
        let unk_user = is_unk_user ts user_id;
            unk_item = is_unk_item ts item_id
        in if use_bias self then
             bind (if \<not> unk_user
                   then bind (attr (self_u_biases self)) (\<lambda>ub.
                        bind (getitem ub user_id) (\<lambda>b. Inr (global_mean ts + b)))
                   else Inr (global_mean ts)) (\<lambda>score_pred1.
             bind (if \<not> unk_item
                   then bind (attr (self_i_biases self)) (\<lambda>ib.
                        bind (getitem ib item_id) (\<lambda>b. Inr (score_pred1 + b)))
                   else Inr score_pred1) (\<lambda>score_pred2.
             if \<not> unk_user \<and> \<not> unk_item
             then bind (factor_dot self user_id item_id) (\<lambda>d. Inr (score_pred2 + d))
             else Inr score_pred2))
           else if unk_user \<or> unk_item then Inl (ScoreException user_id item_id)
           else factor_dot self user_id item_id))"

subsection \<open>rank\<close>

text \<open>
  Modelled from the spec: \<open>intersects\<close> of \<^verbatim>\<open>cornac.utils.generic_utils\<close> is not in this
  file of the repository. The spec: "filter the sorted order down to exactly the given
  candidate set, preserving the sort's relative order (ranked intersection, not
  re-sorting the candidate list itself)".
\<close>

definition intersects :: "nat list \<Rightarrow> nat list \<Rightarrow> nat list" where
  "intersects x y = filter (\<lambda>a. a \<in> set y) x"

text \<open>
  \<open>ndarray.argsort\<close> is a parameter of \<open>rank\<close>: numpy's default sort is not stable, so
  the order it gives to equal scores is not fixed. \<open>is_argsort\<close> says what every sort
  kind guarantees on a vector \<open>xs\<close>: the result is a permutation of the indices of \<open>xs\<close>
  along which the values ascend. \<open>stable_argsort\<close> is one such function.
\<close>

definition is_argsort :: "(real list \<Rightarrow> nat list) \<Rightarrow> real list \<Rightarrow> bool" where
  "is_argsort argsort xs \<longleftrightarrow>
     distinct (argsort xs) \<and> set (argsort xs) = {0..<length xs} \<and>
     sorted (map (\<lambda>j. xs ! j) (argsort xs))"

definition stable_argsort :: "real list \<Rightarrow> nat list" where
  "stable_argsort xs = sort_key (\<lambda>j. xs ! j) [0..<length xs]"

text \<open>
  Line 211, \<^verbatim>\<open>pref_scores[:num_items] = known_item_scores\<close> on a vector of \<open>n \<ge> num_items\<close>
  slots that all hold \<open>min_rating\<close>: numpy copies a vector of the slice's length,
  broadcasts a vector of length one, and raises \<open>ValueError\<close> for any other length.
\<close>

definition pad_scores :: "TrainSet \<Rightarrow> real list \<Rightarrow> nat \<Rightarrow> error + real list" where
  "pad_scores ts known_item_scores n =
     (if length known_item_scores = num_items ts
      then Inr (known_item_scores @ replicate (n - num_items ts) (min_rating ts))
      else if length known_item_scores = 1
      then Inr (replicate (num_items ts) (hd known_item_scores)
                  @ replicate (n - num_items ts) (min_rating ts))
      else Inl (ValueError ''could not broadcast input array''))"

text \<open>Lines 205 to 216: from the score vector of the known items to the ranking.\<close>

definition rank_scores ::
  "TrainSet \<Rightarrow> (real list \<Rightarrow> nat list) \<Rightarrow> real list \<Rightarrow> nat list option \<Rightarrow> error + nat list" where
  "rank_scores ts argsort known_item_scores candidate_item_ids =
     (case candidate_item_ids of
        None \<Rightarrow> Inr (rev (argsort known_item_scores))
      | Some cs \<Rightarrow>
          if cs = [] then Inl (ValueError ''max() arg is an empty sequence'')
          else
            let n = max (num_items ts) (Max (set cs) + 1)
            in bind (pad_scores ts known_item_scores n) (\<lambda>pref_scores.
               Inr (intersects (rev (argsort pref_scores)) cs)))"

text \<open>
  \<open>MF.rank\<close>. \<open>default_rank\<close> is a method of the base class \<open>Recommender\<close>, which is not in
  this file of the repository: it is a parameter.
\<close>

definition rank ::
  "MF \<Rightarrow> (nat list option \<Rightarrow> error + nat list) \<Rightarrow> (real list \<Rightarrow> nat list)
     \<Rightarrow> nat \<Rightarrow> nat list option \<Rightarrow> error + nat list" where
  "rank self default_rank argsort user_id candidate_item_ids =
     (if \<not> fitted self then Inl not_fitted
      else
        bind (attr (train_set self)) (\<lambda>ts.
        if is_unk_user ts user_id then
          if use_bias self
          then bind (attr (self_i_biases self)) (\<lambda>known_item_scores.
               rank_scores ts argsort known_item_scores candidate_item_ids)
          else default_rank candidate_item_ids
        else
          bind (attr (self_i_factors self)) (\<lambda>itf.
          bind (attr (self_u_factors self)) (\<lambda>uf.
          bind (getitem uf user_id) (\<lambda>p.
          bind (np_dot_mv itf p) (\<lambda>known_item_scores.
          rank_scores ts argsort known_item_scores candidate_item_ids))))))"

subsection \<open>Notions used by the theorems\<close>

text \<open>
  A trained model: \<open>fit\<close> has set \<open>fitted\<close>, the training set is stored, and the factor
  matrices have one row of \<open>k\<close> entries for every user and every item of that training
  set. \<open>biased\<close> says the same of the bias vectors. Every model that \<open>fit\<close> returns is
  trained (lemma \<open>fit_trained\<close>).
\<close>

definition trained :: "MF \<Rightarrow> TrainSet \<Rightarrow> real list list \<Rightarrow> real list list \<Rightarrow> bool" where
  "trained self ts U V \<longleftrightarrow>
     fitted self \<and> train_set self = Some ts \<and>
     self_u_factors self = Some U \<and> self_i_factors self = Some V \<and>
     length U = num_users ts \<and> length V = num_items ts \<and>
     list_all (\<lambda>row. length row = nat (k self)) U \<and>
     list_all (\<lambda>row. length row = nat (k self)) V"

definition biased :: "MF \<Rightarrow> TrainSet \<Rightarrow> real list \<Rightarrow> real list \<Rightarrow> bool" where
  "biased self ts ub ib \<longleftrightarrow>
     self_u_biases self = Some ub \<and> self_i_biases self = Some ib \<and>
     length ub = num_users ts \<and> length ib = num_items ts"

text \<open>
  The shape of the factor matrices inside \<open>fit\<close>: \<open>num_users\<close> and \<open>num_items\<close> rows of \<open>k\<close>
  entries. It holds initially and after every step (lemmas \<open>shaped_fit_init\<close>,
  \<open>shaped_sgd_step\<close>, \<open>shaped_epoch\<close>, \<open>shaped_fit_loop\<close>).
\<close>

definition shaped :: "MF \<Rightarrow> TrainSet \<Rightarrow> fit_state \<Rightarrow> bool" where
  "shaped self ts s \<longleftrightarrow>
     map length (u_factors s) = replicate (num_users ts) (nat (k self)) \<and>
     map length (i_factors s) = replicate (num_items ts) (nat (k self))"

text \<open>
  The test of line 120 for the epoch that starts in state \<open>s\<close>: \<open>loss s\<close> is the loss of
  the epoch before (\<open>last_loss\<close>), \<open>loss (epoch self ts s)\<close> the loss of this one.
\<close>

definition stops :: "MF \<Rightarrow> TrainSet \<Rightarrow> fit_state \<Rightarrow> bool" where
  "stops self ts s \<longleftrightarrow> early_stop self \<and> \<bar>loss (epoch self ts s) - loss s\<bar> < 1 / 100000"

subsection \<open>Concrete models\<close>

text \<open>A training set of two users and three items, and a trained model over it.\<close>

definition ex_ts :: TrainSet where
  "ex_ts = \<lparr> num_users = 2, num_items = 3, global_mean = 3, min_rating = 1,
            triples = [(0, 0, 4), (1, 2, 2)],
            is_unk_user = (\<lambda>u. 2 \<le> u), is_unk_item = (\<lambda>i. 3 \<le> i) \<rparr>"

definition ex_model :: "bool \<Rightarrow> MF" where
  "ex_model b = \<lparr> k = 2, max_iter = 20, learning_rate = 1 / 100, lambda_reg = 1 / 50,
       use_bias = b, early_stop = False, verbose = False, fitted = True,
       train_set = Some ex_ts,
       self_u_factors = Some [[1, 2], [3, 4]],
       self_i_factors = Some [[1, 0], [0, 1], [2, 2]],
       self_u_biases = Some [1 / 2, 1 / 4],
       self_i_biases = Some [1, 5, 3] \<rparr>"

text \<open>A default-ranking collaborator that always answers with item 42.\<close>

definition ex_default_rank :: "nat list option \<Rightarrow> error + nat list" where
  "ex_default_rank c = Inr [42]"

text \<open>
  One user, one item, one rating \<open>r\<close>, \<open>k = 1\<close>, early stopping on, and a random draw that
  gives 0 everywhere.
\<close>

definition tiny_ts :: "real \<Rightarrow> real \<Rightarrow> TrainSet" where
  "tiny_ts r mu = \<lparr> num_users = 1, num_items = 1, global_mean = mu, min_rating = 1,
            triples = [(0, 0, r)],
            is_unk_user = (\<lambda>u. 1 \<le> u), is_unk_item = (\<lambda>i. 1 \<le> i) \<rparr>"

definition tiny_model :: "bool \<Rightarrow> MF" where
  "tiny_model b = \<lparr> k = 1, max_iter = 20, learning_rate = 1 / 100, lambda_reg = 1 / 50,
       use_bias = b, early_stop = True, verbose = False, fitted = False,
       train_set = None, self_u_factors = None, self_i_factors = None,
       self_u_biases = None, self_i_biases = None \<rparr>"

definition zero_rnd :: "nat \<Rightarrow> nat \<Rightarrow> real" where
  "zero_rnd r c = 0"

definition tiny_state :: "real \<Rightarrow> real \<Rightarrow> fit_state" where
  "tiny_state a b = \<lparr> u_factors = [[a]], i_factors = [[b]], u_biases = [], i_biases = [],
       loss = 0, iter = 0 \<rparr>"

text \<open>A model as the constructor returns it, with the default arguments.\<close>

definition ex_fresh :: MF where
  "ex_fresh = projr (MF_init 10 20 (1 / 100) (1 / 50) True False False)"

section \<open>Lemmas\<close>

subsection \<open>What the loops of fit leave unchanged\<close>

lemma foldl_preserves:
  assumes "\<And>s x. g (f s x) = g s"
  shows "g (foldl f s xs) = g s"
  by (induction xs arbitrary: s) (simp_all add: assms)

lemma map_length_mat_add [simp]: "map length (mat_add m r c d) = map length m"
proof (cases "r < length m")
  case True
  then show ?thesis
    by (simp add: mat_add_def map_update list_update_same_conv)
next
  case False
  then show ?thesis by (simp add: mat_add_def list_update_beyond)
qed

lemma update_factor_frame [simp]:
  "u_biases (update_factor lr reg e u i s f) = u_biases s"
  "i_biases (update_factor lr reg e u i s f) = i_biases s"
  "loss (update_factor lr reg e u i s f) = loss s"
  "iter (update_factor lr reg e u i s f) = iter s"
  "map length (u_factors (update_factor lr reg e u i s f)) = map length (u_factors s)"
  "map length (i_factors (update_factor lr reg e u i s f)) = map length (i_factors s)"
  by (simp_all add: update_factor_def Let_def)

lemma sgd_step_frame [simp]:
  "u_biases (sgd_step self ts s t) = u_biases s"
  "i_biases (sgd_step self ts s t) = i_biases s"
  "iter (sgd_step self ts s t) = iter s"
  "map length (u_factors (sgd_step self ts s t)) = map length (u_factors s)"
  "map length (i_factors (sgd_step self ts s t)) = map length (i_factors s)"
  by (simp_all add: sgd_step_def Let_def split: prod.splits
        add: foldl_preserves [where g = u_biases] foldl_preserves [where g = i_biases]
          foldl_preserves [where g = iter]
          foldl_preserves [where g = "\<lambda>s. map length (u_factors s)"]
          foldl_preserves [where g = "\<lambda>s. map length (i_factors s)"])

lemma sgd_step_loss:
  "loss (sgd_step self ts s (u, i, r)) =
     loss s + (r - predict self ts s u i) * (r - predict self ts s u i)"
  by (simp add: sgd_step_def Let_def foldl_preserves [where g = loss])

lemma sgd_step_loss_mono: "loss s \<le> loss (sgd_step self ts s t)"
  by (cases t) (simp add: sgd_step_loss)

lemma foldl_sgd_step_loss_mono: "loss s \<le> loss (foldl (sgd_step self ts) s xs)"
proof (induction xs arbitrary: s)
  case Nil
  show ?case by simp
next
  case (Cons x xs)
  have "loss s \<le> loss (sgd_step self ts s x)" by (rule sgd_step_loss_mono)
  also have "\<dots> \<le> loss (foldl (sgd_step self ts) (sgd_step self ts s x) xs)" by (rule Cons.IH)
  finally show ?case by simp
qed

lemma epoch_frame [simp]:
  "u_biases (epoch self ts s) = u_biases s"
  "i_biases (epoch self ts s) = i_biases s"
  "iter (epoch self ts s) = Suc (iter s)"
  "map length (u_factors (epoch self ts s)) = map length (u_factors s)"
  "map length (i_factors (epoch self ts s)) = map length (i_factors s)"
  by (simp_all add: epoch_def Let_def
        foldl_preserves [where g = u_biases] foldl_preserves [where g = i_biases]
        foldl_preserves [where g = iter]
        foldl_preserves [where g = "\<lambda>s. map length (u_factors s)"]
        foldl_preserves [where g = "\<lambda>s. map length (i_factors s)"])

lemma epoch_loss_nonneg: "0 \<le> loss (epoch self ts s)"
proof -
  have "loss (s\<lparr>loss := 0, iter := iter s + 1\<rparr>)
          \<le> loss (foldl (sgd_step self ts) (s\<lparr>loss := 0, iter := iter s + 1\<rparr>) (triples ts))"
    by (rule foldl_sgd_step_loss_mono)
  then show ?thesis by (simp add: epoch_def Let_def)
qed

lemma fit_loop_frame:
  "u_biases (fit_loop self ts n s) = u_biases s"
  "i_biases (fit_loop self ts n s) = i_biases s"
  "map length (u_factors (fit_loop self ts n s)) = map length (u_factors s)"
  "map length (i_factors (fit_loop self ts n s)) = map length (i_factors s)"
  by (induction n arbitrary: s; simp add: Let_def)+

lemma fit_Inr:
  assumes "fit self ts rnd_u rnd_i = Inr self'"
  shows "0 \<le> k self" and
    "self' = self\<lparr> fitted := True, train_set := Some ts,
       self_u_factors := Some (u_factors (fit_loop self ts (nat (max_iter self)) (fit_init self ts rnd_u rnd_i))),
       self_i_factors := Some (i_factors (fit_loop self ts (nat (max_iter self)) (fit_init self ts rnd_u rnd_i))),
       self_u_biases := (if use_bias self then Some (u_biases (fit_loop self ts (nat (max_iter self)) (fit_init self ts rnd_u rnd_i))) else self_u_biases self),
       self_i_biases := (if use_bias self then Some (i_biases (fit_loop self ts (nat (max_iter self)) (fit_init self ts rnd_u rnd_i))) else self_i_biases self) \<rparr>"
  using assms by (simp_all add: fit_def Let_def split: if_splits)

text \<open>\<open>fit\<close> fails only for a negative \<open>k\<close>.\<close>

lemma fit_succeeds: "0 \<le> k self \<Longrightarrow> \<exists>self'. fit self ts rnd_u rnd_i = Inr self'"
  by (simp add: fit_def Let_def)

subsection \<open>The update loop of one interaction\<close>

lemma mat_add_nth:
  assumes "r < length m" and "c < length (m ! r)"
  shows "mat_add m r c d ! r ! c' = (if c' = c then m ! r ! c + d else m ! r ! c')"
  using assms by (simp add: mat_add_def nth_list_update)

text \<open>
  After the dimensions \<open>0, \<dots>, j - 1\<close> the entries below \<open>j\<close> of row \<open>u\<close> and of row \<open>i\<close>
  hold the update computed from the two values the loop started with; the entries from
  \<open>j\<close> on are still those values.
\<close>

lemma update_loop_entries:
  assumes "u < length (u_factors s)" and "i < length (i_factors s)"
    and "j \<le> length (u_factors s ! u)" and "j \<le> length (i_factors s ! i)"
  shows "u_factors (foldl (update_factor lr reg e u i) s [0..<j]) ! u ! f =
           (if f < j
            then u_factors s ! u ! f + lr * (e * (i_factors s ! i ! f) - reg * (u_factors s ! u ! f))
            else u_factors s ! u ! f) \<and>
         i_factors (foldl (update_factor lr reg e u i) s [0..<j]) ! i ! f =
           (if f < j
            then i_factors s ! i ! f + lr * (e * (u_factors s ! u ! f) - reg * (i_factors s ! i ! f))
            else i_factors s ! i ! f)"
  using assms(3,4)
proof (induction j arbitrary: f)
  case 0
  show ?case by simp
next
  case (Suc j)
  define s' where "s' = foldl (update_factor lr reg e u i) s [0..<j]"
  have IH: "u_factors s' ! u ! g =
           (if g < j
            then u_factors s ! u ! g + lr * (e * (i_factors s ! i ! g) - reg * (u_factors s ! u ! g))
            else u_factors s ! u ! g)"
       "i_factors s' ! i ! g =
           (if g < j
            then i_factors s ! i ! g + lr * (e * (u_factors s ! u ! g) - reg * (i_factors s ! i ! g))
            else i_factors s ! i ! g)" for g
    using Suc.IH [of g] Suc.prems by (simp_all add: s'_def)
  have lenU: "map length (u_factors s') = map length (u_factors s)"
    unfolding s'_def by (rule foldl_preserves [where g = "\<lambda>s. map length (u_factors s)"]) simp
  have lenI: "map length (i_factors s') = map length (i_factors s)"
    unfolding s'_def by (rule foldl_preserves [where g = "\<lambda>s. map length (i_factors s)"]) simp
  have lu: "length (u_factors s') = length (u_factors s)"
    using arg_cong [OF lenU, of length] by simp
  have li: "length (i_factors s') = length (i_factors s)"
    using arg_cong [OF lenI, of length] by simp
  have ru: "length (u_factors s' ! u) = length (u_factors s ! u)"
    using arg_cong [OF lenU, of "\<lambda>l. l ! u"] assms(1) lu by simp
  have ri: "length (i_factors s' ! i) = length (i_factors s ! i)"
    using arg_cong [OF lenI, of "\<lambda>l. l ! i"] assms(2) li by simp
  have u_ok: "u < length (u_factors s')" "j < length (u_factors s' ! u)"
    using assms(1) Suc.prems lu ru by simp_all
  have i_ok: "i < length (i_factors s')" "j < length (i_factors s' ! i)"
    using assms(2) Suc.prems li ri by simp_all
  have step: "foldl (update_factor lr reg e u i) s [0..<Suc j] = update_factor lr reg e u i s' j"
    by (simp add: s'_def)
  show ?case
    unfolding step
    by (simp add: update_factor_def Let_def mat_add_nth u_ok i_ok IH less_Suc_eq)
qed

subsection \<open>The shape of the factor matrices\<close>

lemma shaped_lengths:
  assumes "shaped self ts s" and "u < num_users ts" and "i < num_items ts"
  shows "u < length (u_factors s)" "i < length (i_factors s)"
    "length (u_factors s ! u) = nat (k self)" "length (i_factors s ! i) = nat (k self)"
proof -
  have U: "map length (u_factors s) = replicate (num_users ts) (nat (k self))"
    and V: "map length (i_factors s) = replicate (num_items ts) (nat (k self))"
    using assms(1) by (simp_all add: shaped_def)
  show lu: "u < length (u_factors s)"
    using arg_cong [OF U, of length] assms(2) by simp
  show li: "i < length (i_factors s)"
    using arg_cong [OF V, of length] assms(3) by simp
  show "length (u_factors s ! u) = nat (k self)"
    using arg_cong [OF U, of "\<lambda>l. l ! u"] lu assms(2) by simp
  show "length (i_factors s ! i) = nat (k self)"
    using arg_cong [OF V, of "\<lambda>l. l ! i"] li assms(3) by simp
qed

lemma shaped_fit_init: "shaped self ts (fit_init self ts rnd_u rnd_i)"
  by (simp add: shaped_def fit_init_def normal_def comp_def map_replicate_const)

lemma shaped_sgd_step: "shaped self ts s \<Longrightarrow> shaped self ts (sgd_step self ts s t)"
  by (simp add: shaped_def)

lemma shaped_foldl_sgd_step:
  "shaped self ts s \<Longrightarrow> shaped self ts (foldl (sgd_step self ts) s xs)"
  by (induction xs arbitrary: s) (simp_all add: shaped_sgd_step)

lemma shaped_epoch_start:
  "shaped self ts s \<Longrightarrow> shaped self ts (s\<lparr>loss := l, iter := n\<rparr>)"
  by (simp add: shaped_def)

lemma shaped_epoch: "shaped self ts s \<Longrightarrow> shaped self ts (epoch self ts s)"
  by (simp add: shaped_def)

lemma shaped_fit_loop: "shaped self ts s \<Longrightarrow> shaped self ts (fit_loop self ts n s)"
  by (simp add: shaped_def fit_loop_frame)

lemma in_shape_triple:
  "in_shape ts \<Longrightarrow> (u, i, r) \<in> set (triples ts) \<Longrightarrow> u < num_users ts \<and> i < num_items ts"
  by (auto simp: in_shape_def list_all_iff)

lemma fit_trained:
  assumes "fit self ts rnd_u rnd_i = Inr self'"
  shows "\<exists>U V. trained self' ts U V"
proof -
  define s where "s = fit_loop self ts (nat (max_iter self)) (fit_init self ts rnd_u rnd_i)"
  have sh: "shaped self ts s"
    unfolding s_def by (intro shaped_fit_loop shaped_fit_init)
  have U: "map length (u_factors s) = replicate (num_users ts) (nat (k self))"
    and V: "map length (i_factors s) = replicate (num_items ts) (nat (k self))"
    using sh by (simp_all add: shaped_def)
  have "length (u_factors s) = num_users ts" "length (i_factors s) = num_items ts"
    using arg_cong [OF U, of length] arg_cong [OF V, of length] by simp_all
  moreover have "list_all (\<lambda>row. length row = nat (k self)) (u_factors s)"
    "list_all (\<lambda>row. length row = nat (k self)) (i_factors s)"
    using arg_cong [OF U, of set] arg_cong [OF V, of set]
    by (auto simp: list_all_iff split: if_splits)
  ultimately have "trained self' ts (u_factors s) (i_factors s)"
    using fit_Inr(2) [OF assms] by (simp add: trained_def s_def)
  then show ?thesis by blast
qed

text \<open>\<open>fit\<close> keeps the configuration, and with bias mode enabled its result is \<open>biased\<close>.\<close>

lemma fit_config:
  assumes "fit self ts rnd_u rnd_i = Inr self'"
  shows "k self' = k self" "max_iter self' = max_iter self" "use_bias self' = use_bias self"
    "early_stop self' = early_stop self" "learning_rate self' = learning_rate self"
    "lambda_reg self' = lambda_reg self"
  using fit_Inr(2) [OF assms] by simp_all

lemma fit_biased:
  assumes "use_bias self" and "fit self ts rnd_u rnd_i = Inr self'"
  shows "biased self' ts (zeros (num_users ts)) (zeros (num_items ts))"
  using assms(1) fit_Inr(2) [OF assms(2)]
  by (simp add: biased_def fit_loop_frame fit_init_def zeros_def)

subsection \<open>The epoch loop\<close>

lemma iter_funpow_epoch: "iter ((epoch self ts ^^ n) s) = iter s + n"
  by (induction n) simp_all

lemma fit_loop_Suc:
  "fit_loop self ts (Suc m) s =
     (if stops self ts s then epoch self ts s else fit_loop self ts m (epoch self ts s))"
  by (simp add: stops_def Let_def)

lemma fit_loop_pos:
  "0 < m \<Longrightarrow> fit_loop self ts m s =
     (if stops self ts s then epoch self ts s else fit_loop self ts (m - 1) (epoch self ts s))"
  by (cases m) (simp_all add: stops_def Let_def)

text \<open>
  With \<open>m\<close> values left in the range the loop runs some \<open>n \<le> m\<close> epochs: none of the
  first \<open>n - 1\<close> passes the test of line 120, and if \<open>n < m\<close> the last one does.
\<close>

lemma fit_loop_char:
  "\<exists>n\<le>m. fit_loop self ts m s = (epoch self ts ^^ n) s \<and>
     (\<forall>j. Suc j < n \<longrightarrow> \<not> stops self ts ((epoch self ts ^^ j) s)) \<and>
     (n < m \<longrightarrow> 0 < n \<and> stops self ts ((epoch self ts ^^ (n - 1)) s))"
proof (induction m arbitrary: s)
  case 0
  show ?case by simp
next
  case (Suc m)
  show ?case
  proof (cases "stops self ts s")
    case True
    have "fit_loop self ts (Suc m) s = (epoch self ts ^^ 1) s"
      using True by (simp add: fit_loop_Suc del: fit_loop.simps)
    moreover have "\<forall>j. Suc j < 1 \<longrightarrow> \<not> stops self ts ((epoch self ts ^^ j) s)"
      by simp
    moreover have "(1::nat) < Suc m \<longrightarrow> 0 < (1::nat) \<and> stops self ts ((epoch self ts ^^ (1 - 1)) s)"
      using True by simp
    moreover have "(1::nat) \<le> Suc m" by simp
    ultimately show ?thesis by blast
  next
    case False
    from Suc.IH [of "epoch self ts s"] obtain n where n: "n \<le> m"
      and eq: "fit_loop self ts m (epoch self ts s) = (epoch self ts ^^ n) (epoch self ts s)"
      and before: "\<And>j. Suc j < n \<Longrightarrow> \<not> stops self ts ((epoch self ts ^^ j) (epoch self ts s))"
      and last: "n < m \<Longrightarrow> 0 < n \<and> stops self ts ((epoch self ts ^^ (n - 1)) (epoch self ts s))"
      by blast
    have "fit_loop self ts (Suc m) s = (epoch self ts ^^ Suc n) s"
      using False eq by (simp add: fit_loop_Suc funpow_swap1 del: fit_loop.simps)
    moreover have "\<not> stops self ts ((epoch self ts ^^ j) s)" if "Suc j < Suc n" for j
    proof (cases j)
      case 0
      then show ?thesis using False by simp
    next
      case (Suc j')
      then have "Suc j' < n" using that by simp
      from before [OF this] show ?thesis by (simp add: Suc funpow_swap1)
    qed
    moreover have "0 < Suc n \<and> stops self ts ((epoch self ts ^^ (Suc n - 1)) s)" if "Suc n < Suc m"
    proof -
      from that have "n < m" by simp
      from last [OF this] obtain n' where "n = Suc n'"
        and "stops self ts ((epoch self ts ^^ n') (epoch self ts s))"
        by (cases n) auto
      then show ?thesis by (simp add: funpow_swap1)
    qed
    moreover have "Suc n \<le> Suc m" using n by simp
    ultimately show ?thesis by blast
  qed
qed

subsection \<open>score and rank on a trained model\<close>

lemma factor_dot_trained:
  assumes "trained self ts U V" "u < num_users ts" "i < num_items ts"
  shows "factor_dot self u i = Inr (dot (U ! u) (V ! i))"
  using assms
  by (simp add: trained_def factor_dot_def bind_def attr_def getitem_def np_dot_def list_all_length)

lemma np_dot_mv_trained:
  assumes "trained self ts U V" and "u < num_users ts"
  shows "np_dot_mv V (U ! u) = Inr (map (\<lambda>row. dot row (U ! u)) V)"
proof -
  have "length (U ! u) = nat (k self)"
    using assms by (simp add: trained_def list_all_length)
  moreover have "list_all (\<lambda>row. length row = nat (k self)) V"
    using assms by (simp add: trained_def)
  ultimately show ?thesis by (simp add: np_dot_mv_def)
qed

lemma rank_known_user:
  assumes "trained self ts U V" and "\<not> is_unk_user ts u" and "u < num_users ts"
  shows "rank self default_rank argsort u cands =
           rank_scores ts argsort (map (\<lambda>row. dot row (U ! u)) V) cands"
proof -
  have "fitted self" "train_set self = Some ts" "self_u_factors self = Some U"
    "self_i_factors self = Some V" "u < length U"
    using assms by (simp_all add: trained_def)
  then show ?thesis
    using assms(2) np_dot_mv_trained [OF assms(1,3)]
    by (simp add: rank_def bind_def attr_def getitem_def)
qed

lemma stable_argsort_ok: "is_argsort stable_argsort xs"
  by (simp add: is_argsort_def stable_argsort_def)

lemma descending_order:
  assumes "is_argsort argsort xs"
  shows "distinct (rev (argsort xs))" "set (rev (argsort xs)) = {0..<length xs}"
    "sorted_wrt (\<lambda>a b. xs ! a \<ge> xs ! b) (rev (argsort xs))"
  using assms by (simp_all add: is_argsort_def sorted_wrt_rev sorted_map)

subsection \<open>The concrete models\<close>

lemma ex_trained: "trained (ex_model b) ex_ts [[1, 2], [3, 4]] [[1, 0], [0, 1], [2, 2]]"
  by (simp add: trained_def ex_model_def ex_ts_def)

lemma ex_biased: "biased (ex_model b) ex_ts [1 / 2, 1 / 4] [1, 5, 3]"
  by (simp add: biased_def ex_model_def ex_ts_def)

lemma tiny_init: "fit_init (tiny_model False) (tiny_ts 1 1) zero_rnd zero_rnd = tiny_state 0 0"
  by (simp add: fit_init_def tiny_model_def tiny_ts_def zero_rnd_def normal_def tiny_state_def)

lemma tiny_epoch:
  "epoch (tiny_model False) (tiny_ts 1 1) (tiny_state 0 0\<lparr>loss := l, iter := n\<rparr>)
     = tiny_state 0 0\<lparr>loss := 1 / 2, iter := Suc n\<rparr>"
  by (simp add: epoch_def sgd_step_def predict_def update_factor_def mat_add_def Let_def
        tiny_model_def tiny_ts_def tiny_state_def)

text \<open>
  With the rating 1 and all factors 0 every epoch has the loss \<open>1 / 2\<close>: the first epoch
  does not pass the test of line 120 (\<open>\<bar>1 / 2 - 0\<bar>\<close>), the second does (\<open>\<bar>1 / 2 - 1 / 2\<bar>\<close>).
\<close>

lemma tiny_run:
  "fit_loop (tiny_model False) (tiny_ts 1 1) (nat (max_iter (tiny_model False)))
     (fit_init (tiny_model False) (tiny_ts 1 1) zero_rnd zero_rnd)
   = tiny_state 0 0\<lparr>loss := 1 / 2, iter := 2\<rparr>"
proof -
  define s1 where "s1 = tiny_state 0 0\<lparr>loss := 1 / 2, iter := 1\<rparr>"
  define s2 where "s2 = tiny_state 0 0\<lparr>loss := 1 / 2, iter := 2\<rparr>"
  have e1: "epoch (tiny_model False) (tiny_ts 1 1) (tiny_state 0 0) = s1"
    using tiny_epoch [where l = 0 and n = 0] by (simp add: s1_def tiny_state_def)
  have e2: "epoch (tiny_model False) (tiny_ts 1 1) s1 = s2"
    using tiny_epoch [where l = "1 / 2" and n = 1] by (simp add: s1_def s2_def)
  have n1: "\<not> stops (tiny_model False) (tiny_ts 1 1) (tiny_state 0 0)"
    unfolding stops_def e1 by (simp add: s1_def tiny_state_def)
  have n2: "stops (tiny_model False) (tiny_ts 1 1) s1"
    unfolding stops_def e2 by (simp add: s1_def s2_def tiny_model_def)
  have m: "nat (max_iter (tiny_model False)) = 20"
    by (simp add: tiny_model_def)
  have "fit_loop (tiny_model False) (tiny_ts 1 1) 20 (tiny_state 0 0)
          = fit_loop (tiny_model False) (tiny_ts 1 1) 19 s1"
    using n1 by (simp add: fit_loop_pos e1 del: fit_loop.simps)
  also have "\<dots> = s2"
    using n2 by (simp add: fit_loop_pos e2 del: fit_loop.simps)
  finally show ?thesis
    unfolding m tiny_init s2_def .
qed

section \<open>The claims\<close>

subsection \<open>score\<close>

text \<open>
  C1. On a trained model with bias mode enabled, \<open>score\<close> returns a value for every user
  and item, also for unknown ones: the global mean, plus the user's bias when the user
  is known, plus the item's bias when the item is known, plus the dot product of the
  two factor rows when both are known. The training set reports an index as known only
  if it is below the number of users or items.
\<close>

theorem score_with_bias:
  assumes "trained self ts U V" and "use_bias self" and "biased self ts ub ib"
    and "\<not> is_unk_user ts u \<Longrightarrow> u < num_users ts"
    and "\<not> is_unk_item ts i \<Longrightarrow> i < num_items ts"
  shows "score self u i =
     Inr (if is_unk_user ts u
          then (if is_unk_item ts i then global_mean ts else global_mean ts + ib ! i)
          else (if is_unk_item ts i then global_mean ts + ub ! u
                else global_mean ts + ub ! u + ib ! i + dot (U ! u) (V ! i)))"
proof -
  have base: "fitted self" "train_set self = Some ts"
    "self_u_biases self = Some ub" "self_i_biases self = Some ib"
    "length ub = num_users ts" "length ib = num_items ts"
    using assms(1,3) by (simp_all add: trained_def biased_def)
  show ?thesis
  proof (cases "is_unk_user ts u")
    case True
    then show ?thesis
      using base assms(2,5) by (simp add: score_def bind_def attr_def getitem_def)
  next
    case False
    then have u: "u < num_users ts" by (rule assms(4))
    show ?thesis
    proof (cases "is_unk_item ts i")
      case True
      then show ?thesis
        using base assms(2) False u by (simp add: score_def bind_def attr_def getitem_def)
    next
      case unk: False
      then have i: "i < num_items ts" by (rule assms(5))
      show ?thesis
        using base assms(2) False unk u i factor_dot_trained [OF assms(1) u i]
        by (simp add: score_def bind_def attr_def getitem_def)
    qed
  qed
qed

theorem score_with_bias_witness:
  "trained (ex_model True) ex_ts [[1, 2], [3, 4]] [[1, 0], [0, 1], [2, 2]] \<and>
   use_bias (ex_model True) \<and>
   biased (ex_model True) ex_ts [1 / 2, 1 / 4] [1, 5, 3] \<and>
   score (ex_model True) 1 2 = Inr (3 + 1 / 4 + 3 + 14) \<and>
   score (ex_model True) 7 2 = Inr (3 + 3) \<and>
   score (ex_model True) 1 9 = Inr (3 + 1 / 4) \<and>
   score (ex_model True) 7 9 = Inr 3"
proof -
  have ub: "use_bias (ex_model True)" by (simp add: ex_model_def)
  show ?thesis
    using score_with_bias [OF ex_trained [of True] ub ex_biased [of True], of 1 2]
      score_with_bias [OF ex_trained [of True] ub ex_biased [of True], of 7 2]
      score_with_bias [OF ex_trained [of True] ub ex_biased [of True], of 1 9]
      score_with_bias [OF ex_trained [of True] ub ex_biased [of True], of 7 9]
      ex_trained [of True] ex_biased [of True] ub
    by (simp add: ex_ts_def dot_def)
qed

text \<open>
  C2. On a trained model with bias mode disabled, \<open>score\<close> fails if and only if the user
  or the item is unknown, and the error is then the \<open>ScoreException\<close> whose message
  carries the two indices; when both are known the result is exactly the dot product of
  the two factor rows, with no mean and no bias added.
\<close>

theorem score_without_bias:
  assumes "trained self ts U V" and "\<not> use_bias self"
    and "\<not> is_unk_user ts u \<Longrightarrow> u < num_users ts"
    and "\<not> is_unk_item ts i \<Longrightarrow> i < num_items ts"
  shows "score self u i =
           (if is_unk_user ts u \<or> is_unk_item ts i then Inl (ScoreException u i)
            else Inr (dot (U ! u) (V ! i))) \<and>
         ((\<exists>e. score self u i = Inl e) \<longleftrightarrow> is_unk_user ts u \<or> is_unk_item ts i)"
proof -
  have base: "fitted self" "train_set self = Some ts"
    using assms(1) by (simp_all add: trained_def)
  have eq: "score self u i =
           (if is_unk_user ts u \<or> is_unk_item ts i then Inl (ScoreException u i)
            else Inr (dot (U ! u) (V ! i)))"
  proof (cases "is_unk_user ts u \<or> is_unk_item ts i")
    case True
    then show ?thesis
      using base assms(2) by (simp add: score_def bind_def attr_def)
  next
    case False
    then have "u < num_users ts" "i < num_items ts"
      using assms(3,4) by simp_all
    from factor_dot_trained [OF assms(1) this] False show ?thesis
      using base assms(2) by (simp add: score_def bind_def attr_def)
  qed
  then have "(\<exists>e. score self u i = Inl e) \<longleftrightarrow> is_unk_user ts u \<or> is_unk_item ts i"
    by simp
  with eq show ?thesis by blast
qed

theorem score_without_bias_witness:
  "trained (ex_model False) ex_ts [[1, 2], [3, 4]] [[1, 0], [0, 1], [2, 2]] \<and>
   \<not> use_bias (ex_model False) \<and>
   score (ex_model False) 1 2 = Inr 14 \<and>
   score (ex_model False) 7 2 = Inl (ScoreException 7 2) \<and>
   score (ex_model False) 1 9 = Inl (ScoreException 1 9)"
proof -
  have nb: "\<not> use_bias (ex_model False)" by (simp add: ex_model_def)
  show ?thesis
    using score_without_bias [OF ex_trained [of False] nb, of 1 2]
      score_without_bias [OF ex_trained [of False] nb, of 7 2]
      score_without_bias [OF ex_trained [of False] nb, of 1 9]
      ex_trained [of False] nb
    by (simp add: ex_ts_def dot_def)
qed

text \<open>
  C5. On a model on which \<open>fit\<close> has not completed (\<open>fitted\<close> is false), \<open>score\<close> and \<open>rank\<close>
  fail for all their arguments with the error of the guard in their first line, the
  \<open>ValueError\<close> "You need to fit the model first!" (the spec's \<open>UntrainedModelError\<close>).
\<close>

theorem untrained_guard:
  assumes "\<not> fitted self"
  shows "score self u i = Inl (ValueError ''You need to fit the model first!'') \<and>
         rank self default_rank argsort u cands
           = Inl (ValueError ''You need to fit the model first!'')"
  using assms by (simp add: score_def rank_def not_fitted_def)

theorem untrained_guard_witness:
  "\<not> fitted ex_fresh \<and>
   score ex_fresh 0 0 = Inl (ValueError ''You need to fit the model first!'') \<and>
   rank ex_fresh ex_default_rank stable_argsort 0 None
     = Inl (ValueError ''You need to fit the model first!'')"
proof -
  have nf: "\<not> fitted ex_fresh" by (simp add: ex_fresh_def MF_init_def)
  from untrained_guard [OF nf] nf show ?thesis by blast
qed

subsection \<open>The constructor\<close>

text \<open>
  C9, as the code has it. The constructor checks none of its arguments: for every \<open>k\<close>,
  \<open>max_iter\<close>, \<open>learning_rate\<close> and \<open>lambda_reg\<close> (a non-positive \<open>k\<close> or \<open>max_iter\<close> and a
  negative \<open>lambda_reg\<close> included) it returns an untrained model that stores the values
  unchanged.
\<close>

theorem init_accepts_all:
  "MF_init k0 max_iter0 learning_rate0 lambda_reg0 use_bias0 early_stop0 verbose0 =
     Inr \<lparr> k = k0, max_iter = max_iter0, learning_rate = learning_rate0,
           lambda_reg = lambda_reg0, use_bias = use_bias0, early_stop = early_stop0,
           verbose = verbose0, fitted = False, train_set = None,
           self_u_factors = None, self_i_factors = None,
           self_u_biases = None, self_i_biases = None \<rparr>"
  by (simp add: MF_init_def)

text \<open>
  C9, as the spec has it, fails: the configuration \<open>k = -1\<close>, \<open>max_iter = 0\<close>,
  \<open>lambda_reg = -1\<close> is not rejected.
\<close>

theorem init_invalid_counterexample:
  "\<not> isl (MF_init (- 1) 0 (1 / 100) (- 1) True False False)"
  by (simp add: MF_init_def)

subsection \<open>fit\<close>

text \<open>
  C3. The step for one interaction \<open>(u, i, r)\<close> updates, for every latent dimension
  \<open>f < k\<close>, the two scalars \<open>u_factors[u, f]\<close> and \<open>i_factors[i, f]\<close> simultaneously: the
  new user factor is computed from the item factor as it was before the step, the new
  item factor from the user factor as it was before the step, and both use the error of
  the prediction made before the step. This holds in every state whose matrices have
  the shape \<open>fit\<close> gives them, which is every state \<open>fit\<close> reaches, and for every
  interaction inside the rating matrix.
\<close>

theorem sgd_step_simultaneous:
  assumes "shaped self ts s" and "u < num_users ts" and "i < num_items ts"
    and "f < nat (k self)"
  shows "let error = r - predict self ts s u i;
             u_f = u_factors s ! u ! f;
             i_f = i_factors s ! i ! f;
             s' = sgd_step self ts s (u, i, r)
         in u_factors s' ! u ! f = u_f + learning_rate self * (error * i_f - lambda_reg self * u_f) \<and>
            i_factors s' ! i ! f = i_f + learning_rate self * (error * u_f - lambda_reg self * i_f)"
proof -
  note len = shaped_lengths [OF assms(1,2,3)]
  define s1 where "s1 = s\<lparr>loss := loss s + (r - predict self ts s u i) * (r - predict self ts s u i)\<rparr>"
  have "u < length (u_factors s1)" "i < length (i_factors s1)"
    "nat (k self) \<le> length (u_factors s1 ! u)" "nat (k self) \<le> length (i_factors s1 ! i)"
    using len by (simp_all add: s1_def)
  from update_loop_entries [OF this, of "learning_rate self" "lambda_reg self"
      "r - predict self ts s u i" f]
  show ?thesis
    using assms(4) by (simp add: sgd_step_def Let_def s1_def)
qed

text \<open>
  With the factors 2 and 3, the rating 10, learning rate \<open>1 / 100\<close> and regularisation
  \<open>1 / 50\<close> the error is \<open>10 - 2 * 3\<close>; the new item factor is computed from the old user
  factor 2.
\<close>

theorem sgd_step_simultaneous_witness:
  "shaped (tiny_model False) (tiny_ts 10 1) (tiny_state 2 3) \<and>
   0 < num_users (tiny_ts 10 1) \<and> 0 < num_items (tiny_ts 10 1) \<and>
   0 < nat (k (tiny_model False)) \<and>
   u_factors (sgd_step (tiny_model False) (tiny_ts 10 1) (tiny_state 2 3) (0, 0, 10)) ! 0 ! 0
     = 2 + (1 / 100) * ((10 - 2 * 3) * 3 - (1 / 50) * 2) \<and>
   i_factors (sgd_step (tiny_model False) (tiny_ts 10 1) (tiny_state 2 3) (0, 0, 10)) ! 0 ! 0
     = 3 + (1 / 100) * ((10 - 2 * 3) * 2 - (1 / 50) * 3)"
proof -
  have sh: "shaped (tiny_model False) (tiny_ts 10 1) (tiny_state 2 3)"
    by (simp add: shaped_def tiny_model_def tiny_ts_def tiny_state_def)
  have u: "0 < num_users (tiny_ts 10 1)" and i: "0 < num_items (tiny_ts 10 1)"
    by (simp_all add: tiny_ts_def)
  have f: "0 < nat (k (tiny_model False))" by (simp add: tiny_model_def)
  have p: "predict (tiny_model False) (tiny_ts 10 1) (tiny_state 2 3) 0 0 = 2 * 3"
    by (simp add: predict_def tiny_model_def tiny_state_def)
  have lr: "learning_rate (tiny_model False) = 1 / 100" "lambda_reg (tiny_model False) = 1 / 50"
    by (simp_all add: tiny_model_def)
  have s: "u_factors (tiny_state 2 3) ! 0 ! 0 = 2" "i_factors (tiny_state 2 3) ! 0 ! 0 = 3"
    by (simp_all add: tiny_state_def)
  have "u_factors (sgd_step (tiny_model False) (tiny_ts 10 1) (tiny_state 2 3) (0, 0, 10)) ! 0 ! 0
     = 2 + (1 / 100) * ((10 - 2 * 3) * 3 - (1 / 50) * 2) \<and>
   i_factors (sgd_step (tiny_model False) (tiny_ts 10 1) (tiny_state 2 3) (0, 0, 10)) ! 0 ! 0
     = 3 + (1 / 100) * ((10 - 2 * 3) * 2 - (1 / 50) * 3)"
    using sgd_step_simultaneous [OF sh u i f, of 10]
    unfolding Let_def p lr s by simp
  with sh u i f show ?thesis by blast
qed

text \<open>
  C4. With bias mode enabled the two bias vectors are created as zeros and no loop of
  \<open>fit\<close> writes to them: whatever the number of epochs, the interactions and the random
  draw, the vectors that a successful \<open>fit\<close> stores are zero everywhere.
\<close>

theorem fit_biases_zero:
  assumes "use_bias self" and "fit self ts rnd_u rnd_i = Inr self'"
  shows "self_u_biases self' = Some (replicate (num_users ts) 0) \<and>
         self_i_biases self' = Some (replicate (num_items ts) 0)"
  using assms(1) fit_Inr(2) [OF assms(2)]
  by (simp add: fit_loop_frame fit_init_def zeros_def)

theorem fit_biases_zero_witness:
  "use_bias (tiny_model True) \<and>
   \<not> isl (fit (tiny_model True) (tiny_ts 4 4) zero_rnd zero_rnd) \<and>
   self_u_biases (projr (fit (tiny_model True) (tiny_ts 4 4) zero_rnd zero_rnd)) = Some [0] \<and>
   self_i_biases (projr (fit (tiny_model True) (tiny_ts 4 4) zero_rnd zero_rnd)) = Some [0]"
proof -
  have ub: "use_bias (tiny_model True)" by (simp add: tiny_model_def)
  have kk: "\<not> k (tiny_model True) < 0" by (simp add: tiny_model_def)
  have ok: "fit (tiny_model True) (tiny_ts 4 4) zero_rnd zero_rnd
          = Inr (projr (fit (tiny_model True) (tiny_ts 4 4) zero_rnd zero_rnd))"
    unfolding fit_def Let_def using kk by simp
  have n: "num_users (tiny_ts 4 4) = 1" "num_items (tiny_ts 4 4) = 1"
    by (simp_all add: tiny_ts_def)
  have "\<not> isl (fit (tiny_model True) (tiny_ts 4 4) zero_rnd zero_rnd)"
    by (subst ok) simp
  then show ?thesis
    using fit_biases_zero [OF ub ok] ub unfolding n by simp
qed

text \<open>
  C6. The epoch loop of \<open>fit\<close>, started in the initial state, completes \<open>iter\<close> epochs
  with \<open>iter\<close> at most \<open>max_iter\<close> (at most 0 for a negative \<open>max_iter\<close>), and its final state
  is the state after exactly that many epochs. If the test of line 120 (early stopping
  enabled and the loss of an epoch less than \<open>1e-5\<close> away from the loss of the epoch
  before, 0 before the first) holds for epoch \<open>j + 1\<close>, no epoch after \<open>j + 1\<close> starts, and
  epoch \<open>j + 1\<close> is completed. The loop ends before \<open>max_iter\<close> epochs only if its last
  epoch passed that test.
\<close>

theorem fit_loop_epochs:
  fixes self ts rnd_u rnd_i
  defines "s0 \<equiv> fit_init self ts rnd_u rnd_i"
  defines "final \<equiv> fit_loop self ts (nat (max_iter self)) s0"
  shows "iter final \<le> nat (max_iter self) \<and>
         final = (epoch self ts ^^ iter final) s0 \<and>
         (\<forall>j. j < nat (max_iter self) \<and> stops self ts ((epoch self ts ^^ j) s0)
               \<longrightarrow> iter final \<le> Suc j) \<and>
         (iter final < nat (max_iter self)
            \<longrightarrow> 0 < iter final \<and> stops self ts ((epoch self ts ^^ (iter final - 1)) s0))"
proof -
  from fit_loop_char [of "nat (max_iter self)" self ts s0]
  obtain n where n: "n \<le> nat (max_iter self)"
    and eq: "final = (epoch self ts ^^ n) s0"
    and before: "\<And>j. Suc j < n \<Longrightarrow> \<not> stops self ts ((epoch self ts ^^ j) s0)"
    and last: "n < nat (max_iter self) \<Longrightarrow> 0 < n \<and> stops self ts ((epoch self ts ^^ (n - 1)) s0)"
    unfolding final_def by blast
  have "iter s0 = 0" by (simp add: s0_def fit_init_def)
  then have it: "iter final = n" by (simp add: eq iter_funpow_epoch)
  have "iter final \<le> Suc j" if "stops self ts ((epoch self ts ^^ j) s0)" for j
    using before [of j] that it by (cases "Suc j < n") simp_all
  then show ?thesis
    using n eq last it by simp
qed

text \<open>
  One rating 1 and all factors 0: the loop ends after two of the twenty epochs, and its
  second epoch passes the test.
\<close>

theorem fit_loop_epochs_witness:
  "iter (fit_loop (tiny_model False) (tiny_ts 1 1) (nat (max_iter (tiny_model False)))
          (fit_init (tiny_model False) (tiny_ts 1 1) zero_rnd zero_rnd))
     < nat (max_iter (tiny_model False)) \<and>
   stops (tiny_model False) (tiny_ts 1 1)
     ((epoch (tiny_model False) (tiny_ts 1 1) ^^
        (iter (fit_loop (tiny_model False) (tiny_ts 1 1) (nat (max_iter (tiny_model False)))
          (fit_init (tiny_model False) (tiny_ts 1 1) zero_rnd zero_rnd)) - 1))
        (fit_init (tiny_model False) (tiny_ts 1 1) zero_rnd zero_rnd))"
proof -
  have "iter (fit_loop (tiny_model False) (tiny_ts 1 1) (nat (max_iter (tiny_model False)))
          (fit_init (tiny_model False) (tiny_ts 1 1) zero_rnd zero_rnd))
     < nat (max_iter (tiny_model False))"
    using tiny_run by (simp add: tiny_model_def)
  then show ?thesis
    using fit_loop_epochs [of "tiny_model False" "tiny_ts 1 1" zero_rnd zero_rnd] by blast
qed

text \<open>
  C10. The loss before the first epoch is 0. With early stopping enabled and at least
  one epoch to run (\<open>max_iter \<ge> 1\<close>), if the loss of the first epoch is below \<open>1e-5\<close> then
  the loop ends after exactly one epoch, whatever \<open>max_iter\<close> is.
\<close>

theorem first_epoch_early_stop:
  fixes self ts rnd_u rnd_i
  defines "s0 \<equiv> fit_init self ts rnd_u rnd_i"
  assumes "early_stop self" and "0 < max_iter self"
    and "loss (epoch self ts s0) < 1 / 100000"
  shows "loss s0 = 0 \<and>
         fit_loop self ts (nat (max_iter self)) s0 = epoch self ts s0 \<and>
         iter (fit_loop self ts (nat (max_iter self)) s0) = 1"
proof -
  have l0: "loss s0 = 0" and i0: "iter s0 = 0"
    by (simp_all add: s0_def fit_init_def)
  have "0 \<le> loss (epoch self ts s0)" by (rule epoch_loss_nonneg)
  then have st: "stops self ts s0"
    using assms(2,4) l0 by (simp add: stops_def)
  obtain m where m: "nat (max_iter self) = Suc m"
    using assms(3) by (cases "nat (max_iter self)") simp_all
  have "fit_loop self ts (nat (max_iter self)) s0 = epoch self ts s0"
    unfolding m using st by (simp add: fit_loop_Suc del: fit_loop.simps)
  then show ?thesis using l0 i0 by simp
qed

text \<open>
  The rating \<open>4.001\<close> against the global mean 4 with all factors 0: the first epoch has
  the loss \<open>0.5 * 0.001 * 0.001\<close>.
\<close>

theorem first_epoch_early_stop_witness:
  "early_stop (tiny_model True) \<and> 0 < max_iter (tiny_model True) \<and>
   loss (epoch (tiny_model True) (tiny_ts (4001 / 1000) 4)
           (fit_init (tiny_model True) (tiny_ts (4001 / 1000) 4) zero_rnd zero_rnd)) < 1 / 100000 \<and>
   iter (fit_loop (tiny_model True) (tiny_ts (4001 / 1000) 4) (nat (max_iter (tiny_model True)))
           (fit_init (tiny_model True) (tiny_ts (4001 / 1000) 4) zero_rnd zero_rnd)) = 1"
proof -
  have es: "early_stop (tiny_model True)" and mi: "0 < max_iter (tiny_model True)"
    by (simp_all add: tiny_model_def)
  have small: "loss (epoch (tiny_model True) (tiny_ts (4001 / 1000) 4)
           (fit_init (tiny_model True) (tiny_ts (4001 / 1000) 4) zero_rnd zero_rnd)) < 1 / 100000"
    by (simp add: epoch_def sgd_step_def predict_def update_factor_def mat_add_def Let_def
          fit_init_def normal_def zeros_def zero_rnd_def tiny_model_def tiny_ts_def)
  from first_epoch_early_stop [OF es mi small] es mi small show ?thesis by blast
qed

subsection \<open>rank\<close>

text \<open>
  C7. On a trained model, for a known user and a candidate list that is not empty,
  \<open>rank\<close> takes the scores of the known items (the product of the item factor matrix
  with the user's factor row), extends them with the minimum rating up to the largest
  candidate index when that index is \<open>num_items\<close> or more, orders all indices of the
  extended vector by descending score, and returns that order filtered down to the
  candidates: every candidate once, in the relative order of the sort.
\<close>

theorem rank_candidates:
  fixes self ts U V u cs argsort
  defines "scores \<equiv> map (\<lambda>row. dot row (U ! u)) V"
  defines "n \<equiv> max (num_items ts) (Max (set cs) + 1)"
  defines "pref \<equiv> scores @ replicate (n - num_items ts) (min_rating ts)"
  defines "order \<equiv> rev (argsort pref)"
  assumes "trained self ts U V" and "\<not> is_unk_user ts u" and "u < num_users ts"
    and "cs \<noteq> []" and "is_argsort argsort pref"
  shows "rank self default_rank argsort u (Some cs) = Inr (filter (\<lambda>j. j \<in> set cs) order) \<and>
         length pref = n \<and>
         distinct order \<and> set order = {0..<n} \<and>
         sorted_wrt (\<lambda>a b. pref ! a \<ge> pref ! b) order \<and>
         distinct (filter (\<lambda>j. j \<in> set cs) order) \<and>
         set (filter (\<lambda>j. j \<in> set cs) order) = set cs \<and>
         sorted_wrt (\<lambda>a b. pref ! a \<ge> pref ! b) (filter (\<lambda>j. j \<in> set cs) order)"
proof -
  have len_scores: "length scores = num_items ts"
    using assms(5) by (simp add: scores_def trained_def)
  then have len: "length pref = n"
    by (simp add: pref_def n_def)
  have pad: "pad_scores ts scores n = Inr pref"
    using len_scores by (simp add: pad_scores_def pref_def)
  have "rank_scores ts argsort scores (Some cs) = Inr (filter (\<lambda>j. j \<in> set cs) order)"
    using assms(8) pad unfolding n_def order_def
    by (simp add: rank_scores_def Let_def bind_def intersects_def)
  then have rk: "rank self default_rank argsort u (Some cs) = Inr (filter (\<lambda>j. j \<in> set cs) order)"
    using rank_known_user [OF assms(5,6,7)] by (simp add: scores_def)
  note ord = descending_order [OF assms(9), folded order_def]
  have "c < n" if "c \<in> set cs" for c
  proof -
    have "c \<le> Max (set cs)" using that by simp
    then show ?thesis by (simp add: n_def)
  qed
  then have "set cs \<subseteq> set order"
    using ord(2) len by auto
  then have "set (filter (\<lambda>j. j \<in> set cs) order) = set cs"
    by auto
  then show ?thesis
    using rk len ord by (simp add: sorted_wrt_filter)
qed

text \<open>
  Three items with the scores 3, 4 and 14 for user 1, minimum rating 1, candidates 5, 0
  and 2: the vector is extended to six slots and the candidates come back as 2, 0, 5.
\<close>

theorem rank_candidates_witness:
  "trained (ex_model False) ex_ts [[1, 2], [3, 4]] [[1, 0], [0, 1], [2, 2]] \<and>
   \<not> is_unk_user ex_ts 1 \<and> 1 < num_users ex_ts \<and>
   rank (ex_model False) ex_default_rank stable_argsort 1 (Some [5, 0, 2]) = Inr [2, 0, 5]"
proof -
  have u: "\<not> is_unk_user ex_ts 1" "1 < num_users ex_ts"
    by (simp_all add: ex_ts_def)
  have "rank (ex_model False) ex_default_rank stable_argsort 1 (Some [5, 0, 2]) = Inr [2, 0, 5]"
    using rank_candidates [OF ex_trained [of False] u _ stable_argsort_ok,
        of "[5, 0, 2]" ex_default_rank]
    by (simp add: ex_ts_def dot_def stable_argsort_def eval_nat_numeral)
  with ex_trained [of False] u show ?thesis by blast
qed

text \<open>
  C8. On a trained model, for an unknown user, \<open>rank\<close> ranks from the item-bias vector
  alone when bias mode is enabled, and returns what the default-ranking collaborator
  returns when bias mode is disabled. In both cases the result does not depend on the
  user factor matrix.
\<close>

theorem rank_unknown_user:
  assumes "fitted self" and "train_set self = Some ts" and "is_unk_user ts u"
    and "use_bias self \<Longrightarrow> self_i_biases self = Some ib"
  shows "rank self default_rank argsort u cands =
           (if use_bias self then rank_scores ts argsort ib cands else default_rank cands) \<and>
         rank (self\<lparr>self_u_factors := X\<rparr>) default_rank argsort u cands =
           rank self default_rank argsort u cands"
  using assms by (simp add: rank_def bind_def attr_def)

theorem rank_unknown_user_witness:
  "is_unk_user ex_ts 7 \<and>
   rank (ex_model True) ex_default_rank stable_argsort 7 None = Inr [1, 2, 0] \<and>
   rank (ex_model False) ex_default_rank stable_argsort 7 None = Inr [42] \<and>
   rank (ex_model True\<lparr>self_u_factors := None\<rparr>) ex_default_rank stable_argsort 7 None
     = Inr [1, 2, 0]"
proof -
  have unk: "is_unk_user ex_ts 7" by (simp add: ex_ts_def)
  have f: "fitted (ex_model b)" "train_set (ex_model b) = Some ex_ts"
    "self_i_biases (ex_model b) = Some [1, 5, 3]" for b
    by (simp_all add: ex_model_def)
  have rs: "rank_scores ex_ts stable_argsort [1, 5, 3] None = Inr [1, 2, 0]"
    by (simp add: rank_scores_def stable_argsort_def eval_nat_numeral)
  have t: "use_bias (ex_model True)" and nt: "\<not> use_bias (ex_model False)"
    by (simp_all add: ex_model_def)
  show ?thesis
    using rank_unknown_user [OF f(1,2) [of True] unk f(3) [of True],
          where default_rank = ex_default_rank
          and argsort = stable_argsort and cands = None and X = None]
      rank_unknown_user [OF f(1,2) [of False] unk f(3) [of False],
          where default_rank = ex_default_rank
          and argsort = stable_argsort and cands = None and X = None]
      unk rs t nt
    by (simp add: ex_default_rank_def)
qed

end
